theory Spec2Isabelle
  imports Main
begin

section \<open>Data model of the extension entry point (rn-extension.ts)\<close>

text \<open>
  The module keeps three pieces of process-wide mutable state: the projects cache of
  \<open>ProjectsStorage\<close>, the counter \<open>COUNT_WORKSPACE_FOLDERS\<close> and the subscription
  list of \<open>EXTENSION_CONTEXT\<close>. They are threaded through every handler as a record.
  What a handler does to the outside world (log lines, telemetry, editor commands, calls
  into collaborators) is appended to \<open>effects\<close> in program order. A handler returns the
  exception it ends with (\<open>None\<close> when it returns normally) together with the state it
  leaves behind: a JavaScript throw does not undo the mutations made before it.
  The asynchronous handlers are modelled as running to completion once started.
\<close>

record WorkspaceFolder =
  uri_fsPath :: string
  name :: string
  index :: nat

datatype error =
    ProjectNotFound "string list"
  | DuplicateProject string
  | TypeError
  | Thrown string

text \<open>
  One own property of an \<open>AppLauncher\<close> object as \<open>onFolderRemoved\<close> sees it:
  \<open>Nullish\<close> is \<open>null\<close> or \<open>undefined\<close> (reading \<open>.dispose\<close> of it throws a
  TypeError), \<open>Plain\<close> is a value without a truthy \<open>dispose\<close>, and
  \<open>Disposable r\<close> has a \<open>dispose\<close> method that returns normally (\<open>r = None\<close>) or
  throws (\<open>r = Some e\<close>).
\<close>

datatype member = Nullish | Plain | Disposable "error option"

record AppLauncher =
  workspaceFolder :: WorkspaceFolder
  members :: "(string \<times> member) list"

datatype InternalErrorCode =
    CouldNotFindProjectVersion
  | DebuggerStubLauncherFailed

datatype context_variable = IS_RN_WINDOWS_PROJECT | IS_RN_MACOS_PROJECT

datatype effect =
    LogDebug string
  | LogWarning string
  | TelemetryErrorEvent string InternalErrorCode string
  | TelemetrySimpleEvent string string
  | ShowWarningMessage string
  | SetContext context_variable
  | SetupCall string
  | SetupDone string
  | AddFolderCall string
  | DelFolderCall WorkspaceFolder
  | DisposeCall string
  | ReportError string InternalErrorCode

record subscription =
  owner :: string
  isDisposed :: bool

record state =
  projectsCache :: "(string \<times> AppLauncher) list"
  COUNT_WORKSPACE_FOLDERS :: nat
  subscriptions :: "subscription list"
  effects :: "effect list"

record RNPackageVersions =
  reactNativeVersion :: string
  reactNativeWindowsVersion :: string
  reactNativeMacOSVersion :: string

text \<open>
  The collaborators the module imports and whose results it branches on. They are
  parameters of the model: the file system (\<open>fs.existsSync\<close>, \<open>path.basename\<close>),
  \<open>SettingsHelper.getReactNativeProjectRoot\<close>, the version detection of
  \<open>ProjectVersionHelper\<close> and its \<open>isVersionError\<close>, the two functions of the
  \<open>semver\<close> package that \<open>isSupportedVersion\<close> calls, the outcome of
  \<open>ReactDirManager.setup\<close> for a root path (\<open>None\<close>: resolves), the own properties of a
  freshly constructed \<open>AppLauncher\<close>, and whether the promise returned by
  \<open>entryPointHandler.runFunction\<close> rejects when the wrapped code fails.
\<close>

record env =
  existsSync :: "string \<Rightarrow> bool"
  basename :: "string \<Rightarrow> string"
  getReactNativeProjectRoot :: "string \<Rightarrow> string"
  tryToGetRNSemverValidVersionsFromProjectPackage :: "string \<Rightarrow> RNPackageVersions"
  isVersionError :: "string \<Rightarrow> bool"
  semver_valid :: "string \<Rightarrow> string option"
  semver_gte :: "string \<Rightarrow> string \<Rightarrow> bool"
  reactDirManager_setup :: "string \<Rightarrow> error option"
  launcherMembers :: "string \<Rightarrow> (string \<times> member) list"
  runFunction_rejects :: bool

definition emit :: "effect list \<Rightarrow> state \<Rightarrow> state" where
  "emit es s = s\<lparr>effects := effects s @ es\<rparr>"

definition initial_state :: state where
  "initial_state =
     \<lparr>projectsCache = [], COUNT_WORKSPACE_FOLDERS = 9000, subscriptions = [], effects = []\<rparr>"

section \<open>ProjectsStorage\<close>

text \<open>
  Modelled from the spec: \<open>ProjectsStorage\<close> (the Session Registry) is imported by
  rn-extension.ts but its source is absent. The registry maps a project root to its
  launcher, at most one launcher per root. \<open>addFolder\<close> fails with a duplicate-project
  condition if the root is already present.
\<close>

definition addFolder ::
  "string \<Rightarrow> AppLauncher \<Rightarrow> (string \<times> AppLauncher) list \<Rightarrow> error + (string \<times> AppLauncher) list"
where
  "addFolder projectRootPath appLauncher cache =
     (if projectRootPath \<in> set (map fst cache) then Inl (DuplicateProject projectRootPath)
      else Inr (cache @ [(projectRootPath, appLauncher)]))"

text \<open>
  Modelled from the spec: \<open>getFolder\<close> resolves a workspace folder through the folder
  reference stored in the launcher; if no launcher matches it fails with a
  project-not-found condition that carries the keys of the registry.
\<close>

definition getFolder ::
  "WorkspaceFolder \<Rightarrow> (string \<times> AppLauncher) list \<Rightarrow> error + AppLauncher"
where
  "getFolder folder cache =
     (case find (\<lambda>(root, l). workspaceFolder l = folder) cache of
        None \<Rightarrow> Inl (ProjectNotFound (map fst cache))
      | Some (root, l) \<Rightarrow> Inr l)"

text \<open>
  Modelled from the spec: \<open>delFolder\<close> deletes the entry of the folder. The disposal
  that the spec attributes to the removal is what \<open>onFolderRemoved\<close> does before it
  calls \<open>delFolder\<close>, so it is not repeated here.
\<close>

definition delFolder ::
  "WorkspaceFolder \<Rightarrow> (string \<times> AppLauncher) list \<Rightarrow> (string \<times> AppLauncher) list"
where
  "delFolder folder cache = filter (\<lambda>(root, l). workspaceFolder l \<noteq> folder) cache"

definition registered :: "WorkspaceFolder \<Rightarrow> state \<Rightarrow> bool" where
  "registered folder s = (folder \<in> set (map (\<lambda>(root, l). workspaceFolder l) (projectsCache s)))"

section \<open>Folder removal\<close>

text \<open>
  \<open>Object.keys(appLauncher).forEach(key => { if (appLauncher[key].dispose)
  appLauncher[key].dispose(); })\<close>: the properties are visited in order; the first
  throw ends the loop. The result is the exception, if any, and the dispose calls made.
\<close>

fun disposeMembers :: "(string \<times> member) list \<Rightarrow> error option \<times> effect list" where
  "disposeMembers [] = (None, [])"
| "disposeMembers ((key, Nullish) # ms) = (Some TypeError, [])"
| "disposeMembers ((key, Plain) # ms) = disposeMembers ms"
| "disposeMembers ((key, Disposable (Some e)) # ms) = (Some e, [DisposeCall key])"
| "disposeMembers ((key, Disposable None) # ms) =
     (case disposeMembers ms of (r, es) \<Rightarrow> (r, DisposeCall key # es))"

text \<open>
  The clean-up of \<open>EXTENSION_CONTEXT.subscriptions\<close>: \<open>forEach\<close> visits the indices
  below the length the array had when the loop started, skips an index that is no longer
  present, and the callback splices a disposed element out at the index being visited
  (so the element that moves into that index is not looked at).
\<close>

definition spliceDisposed :: "subscription list \<Rightarrow> subscription list" where
  "spliceDisposed xs =
     fold (\<lambda>i ys. if i < length ys \<and> isDisposed (ys ! i) then take i ys @ drop (Suc i) ys else ys)
       [0..<length xs] xs"

text \<open>
  \<open>onFolderRemoved\<close> looks the launcher up, runs the dispose loop, logs, calls
  \<open>delFolder\<close> and then cleans the subscriptions. Only the clean-up stands inside a
  \<open>try\<close>; an exception of the lookup or of the loop leaves the function at once.
\<close>

definition onFolderRemoved :: "WorkspaceFolder \<Rightarrow> state \<Rightarrow> error option \<times> state" where
  "onFolderRemoved folder s =
     (case getFolder folder (projectsCache s) of
        Inl e \<Rightarrow> (Some e, s)
      | Inr appLauncher \<Rightarrow>
          (case disposeMembers (members appLauncher) of
             (Some e, es) \<Rightarrow> (Some e, emit es s)
           | (None, es) \<Rightarrow>
               (let s1 = emit (es @ [LogDebug (''Delete project: '' @ uri_fsPath folder),
                                     DelFolderCall folder]) s;
                    s2 = s1\<lparr>projectsCache := delFolder folder (projectsCache s1)\<rparr>
                in (None, s2\<lparr>subscriptions := spliceDisposed (subscriptions s2)\<rparr>))))"

section \<open>Synthetic workspace folders\<close>

text \<open>
  \<open>createAdditionalWorkspaceFolder\<close>: when the path exists, the counter is incremented
  first (\<open>++COUNT_WORKSPACE_FOLDERS\<close>) and the new value is the index of the folder
  returned; otherwise the result is \<open>null\<close> and the counter is untouched.
\<close>

definition createAdditionalWorkspaceFolder ::
  "env \<Rightarrow> string \<Rightarrow> state \<Rightarrow> WorkspaceFolder option \<times> state"
where
  "createAdditionalWorkspaceFolder e folderPath s =
     (if existsSync e folderPath then
        (let s1 = s\<lparr>COUNT_WORKSPACE_FOLDERS := COUNT_WORKSPACE_FOLDERS s + 1\<rparr>
         in (Some \<lparr>uri_fsPath = folderPath, name = basename e folderPath,
                    index = COUNT_WORKSPACE_FOLDERS s1\<rparr>, s1))
      else (None, s))"

definition getCountOfWorkspaceFolders :: "state \<Rightarrow> nat" where
  "getCountOfWorkspaceFolders s = COUNT_WORKSPACE_FOLDERS s"

section \<open>Folder addition\<close>

definition shortMessage :: string where
  "shortMessage = ''React Native Tools need React Native version 0.19.0 or later to be installed in <PROJECT_ROOT>/node_modules/''"

text \<open>
  \<open>isSupportedVersion\<close>: \<open>semver.gte\<close> is only evaluated when \<open>semver.valid\<close> did not
  return \<open>null\<close> (the \<open>&&\<close> short-circuits). The rejecting branch reports before it
  returns \<open>false\<close>.
\<close>

definition isSupportedVersion :: "env \<Rightarrow> string \<Rightarrow> state \<Rightarrow> bool \<times> state" where
  "isSupportedVersion e version s =
     (if semver_valid e version \<noteq> None \<and> \<not> semver_gte e version ''0.19.0'' then
        (False, emit [TelemetrySimpleEvent ''unsupportedRNVersion'' version,
                      ShowWarningMessage shortMessage,
                      LogWarning (shortMessage @ '': '' @ version)] s)
      else (True, s))"

definition activateCommands :: "env \<Rightarrow> RNPackageVersions \<Rightarrow> state \<Rightarrow> state" where
  "activateCommands e versions s =
     (let s1 = (if \<not> isVersionError e (reactNativeWindowsVersion versions)
                then emit [SetContext IS_RN_WINDOWS_PROJECT] s else s)
      in if \<not> isVersionError e (reactNativeMacOSVersion versions)
         then emit [SetContext IS_RN_MACOS_PROJECT] s1 else s1)"

text \<open>
  \<open>setupAndDispose\<close> awaits \<open>setup()\<close> of the \<open>ReactDirManager\<close> built for the root
  path; only when that resolves is the manager pushed onto the subscriptions.
\<close>

definition setupAndDispose :: "env \<Rightarrow> string \<Rightarrow> state \<Rightarrow> error option \<times> state" where
  "setupAndDispose e rootPath s =
     (case reactDirManager_setup e rootPath of
        Some err \<Rightarrow> (Some err, emit [SetupCall rootPath] s)
      | None \<Rightarrow>
          (None, (emit [SetupCall rootPath, SetupDone rootPath] s)
                   \<lparr>subscriptions := subscriptions s @ [\<lparr>owner = rootPath, isDisposed = False\<rparr>]\<rparr>))"

definition newAppLauncher :: "env \<Rightarrow> string \<Rightarrow> WorkspaceFolder \<Rightarrow> AppLauncher" where
  "newAppLauncher e rootPath folder =
     \<lparr>workspaceFolder = folder, members = launcherMembers e rootPath\<rparr>"

text \<open>
  The function passed to \<open>runFunction\<close> under the name \<open>debugger.setupLauncherStub\<close>:
  set the manager up, then register the launcher, then count the folder.
\<close>

definition setupLauncherStub ::
  "env \<Rightarrow> WorkspaceFolder \<Rightarrow> string \<Rightarrow> string \<Rightarrow> state \<Rightarrow> error option \<times> state"
where
  "setupLauncherStub e folder rootPath projectRootPath s =
     (case setupAndDispose e rootPath s of
        (Some err, s1) \<Rightarrow> (Some err, s1)
      | (None, s1) \<Rightarrow>
          (let s2 = emit [AddFolderCall projectRootPath] s1
           in case addFolder projectRootPath (newAppLauncher e rootPath folder) (projectsCache s2) of
                Inl err \<Rightarrow> (Some err, s2)
              | Inr cache \<Rightarrow>
                  (None, s2\<lparr>projectsCache := cache,
                            COUNT_WORKSPACE_FOLDERS := COUNT_WORKSPACE_FOLDERS s2 + 1\<rparr>)))"

text \<open>
  Modelled from the spec: \<open>EntryPointHandler.runFunction\<close> is absent from the source. An
  entry point reports a failure of the code it wraps as a typed error record; whether the
  promise it returns then rejects is the parameter \<open>runFunction_rejects\<close>.
\<close>

definition runFunction ::
  "env \<Rightarrow> string \<Rightarrow> InternalErrorCode \<Rightarrow> (state \<Rightarrow> error option \<times> state) \<Rightarrow> state
     \<Rightarrow> error option \<times> state"
where
  "runFunction e appName errorCode codeToRun s =
     (case codeToRun s of
        (None, s1) \<Rightarrow> (None, s1)
      | (Some err, s1) \<Rightarrow>
          (if runFunction_rejects e then Some err else None,
           emit [ReportError appName errorCode] s1))"

definition onFolderAdded :: "env \<Rightarrow> WorkspaceFolder \<Rightarrow> state \<Rightarrow> error option \<times> state" where
  "onFolderAdded e folder s =
     (let rootPath = uri_fsPath folder;
          projectRootPath = getReactNativeProjectRoot e rootPath;
          s1 = emit [LogDebug (''Add project: '' @ projectRootPath)] s;
          versions = tryToGetRNSemverValidVersionsFromProjectPackage e projectRootPath;
          s2 = emit [LogDebug (''React Native version: '' @ reactNativeVersion versions)] s1
      in if isVersionError e (reactNativeVersion versions) then
           (None, emit [LogDebug (''react-native package version is not found in '' @ projectRootPath
                                    @ ''. Reason: '' @ reactNativeVersion versions),
                        TelemetryErrorEvent ''AddProjectReactNativeVersionIsEmpty''
                          CouldNotFindProjectVersion (reactNativeVersion versions)] s2)
         else
           (case isSupportedVersion e (reactNativeVersion versions) s2 of
              (True, s3) \<Rightarrow>
                runFunction e ''debugger.setupLauncherStub'' DebuggerStubLauncherFailed
                  (setupLauncherStub e folder rootPath projectRootPath)
                  (activateCommands e versions s3)
            | (False, s3) \<Rightarrow>
                (None, emit [LogDebug (''react-native@'' @ reactNativeVersion versions
                                         @ '' isn't supported'')] s3)))"

section \<open>Sequences of operations\<close>

text \<open>
  One operation of the process: a folder-added or folder-removed notification, or a call
  of \<open>createAdditionalWorkspaceFolder\<close>. Each operation comes with the environment it
  runs in, so the file system and the detected versions may change between operations.
  \<open>step\<close> gives the index issued by the operation, if it issued one.
\<close>

datatype operation =
    FolderAdded WorkspaceFolder
  | FolderRemoved WorkspaceFolder
  | CreateAdditional string

fun step :: "env \<times> operation \<Rightarrow> state \<Rightarrow> nat option \<times> state" where
  "step (e, FolderAdded folder) s = (None, snd (onFolderAdded e folder s))"
| "step (e, FolderRemoved folder) s = (None, snd (onFolderRemoved folder s))"
| "step (e, CreateAdditional folderPath) s =
     (case createAdditionalWorkspaceFolder e folderPath s of
        (None, s1) \<Rightarrow> (None, s1)
      | (Some folder, s1) \<Rightarrow> (Some (index folder), s1))"

text \<open>
  The state after a sequence of operations, and the indices issued along it, in order.
\<close>

fun final_state :: "(env \<times> operation) list \<Rightarrow> state \<Rightarrow> state" where
  "final_state [] s = s"
| "final_state (x # xs) s = final_state xs (snd (step x s))"

fun issued :: "(env \<times> operation) list \<Rightarrow> state \<Rightarrow> nat list" where
  "issued [] s = []"
| "issued (x # xs) s =
     (case fst (step x s) of None \<Rightarrow> [] | Some i \<Rightarrow> [i]) @ issued xs (snd (step x s))"

section \<open>CommandExecutor\<close>

text \<open>
  The source of \<open>CommandExecutor\<close> is absent; only its test suite is present. The
  definitions of this section follow the contract the spec gives for the Process
  Executor, with the constants the tests assert (error code 101).
\<close>

datatype InternalErrorLevel = Info | Warning | Error

record ErrorRecord =
  errorCode :: int
  errorLevel :: InternalErrorLevel
  message :: string

definition CommandFailed :: int where
  "CommandFailed = 101"

text \<open>
  What the operating system does with a command line: the process cannot be started, or
  it runs and exits with a code, having written to stdout and stderr.
\<close>

datatype process_outcome = CannotStart string | Exited int string string

definition commandFailedError :: "string \<Rightarrow> string \<Rightarrow> ErrorRecord" where
  "commandFailedError commandLine detail =
     \<lparr>errorCode = CommandFailed, errorLevel = Error,
      message = ''Error while executing command: '' @ commandLine @ '': '' @ detail\<rparr>"

text \<open>
  Modelled from the spec: \<open>execute\<close> runs a command line to completion and resolves with
  the captured output. A process that cannot be started yields the command-failed record
  at level Error; a process that exits non-zero yields the same code with the captured
  stderr and stdout attached to the message.
\<close>

definition execute :: "(string \<Rightarrow> process_outcome) \<Rightarrow> string \<Rightarrow> ErrorRecord + string" where
  "execute os commandLine =
     (case os commandLine of
        CannotStart reason \<Rightarrow> Inl (commandFailedError commandLine reason)
      | Exited code out err \<Rightarrow>
          (if code = 0 then Inr (out @ err)
           else Inl (commandFailedError commandLine (err @ out))))"

record spawn_result =
  stdout :: string
  stderr :: string
  outcome :: "ErrorRecord option"

fun join_words :: "string list \<Rightarrow> string" where
  "join_words [] = []"
| "join_words [w] = w"
| "join_words (w # ws) = w @ '' '' @ join_words ws"

text \<open>
  Modelled from the spec: \<open>spawn\<close> starts a process and returns at once with the output
  streams and a completion signal; the signal fails (\<open>outcome = Some r\<close>) when the
  process cannot be started or exits non-zero, and resolves otherwise.
\<close>

definition spawn :: "(string \<Rightarrow> process_outcome) \<Rightarrow> string \<Rightarrow> string list \<Rightarrow> spawn_result" where
  "spawn os command args =
     (let commandLine = join_words (command # args)
      in case os commandLine of
           CannotStart reason \<Rightarrow>
             \<lparr>stdout = [], stderr = [], outcome = Some (commandFailedError commandLine reason)\<rparr>
         | Exited code out err \<Rightarrow>
             \<lparr>stdout = out, stderr = err,
              outcome = (if code = 0 then None
                         else Some (commandFailedError commandLine (err @ out)))\<rparr>)"

definition localCLIPath :: "string \<Rightarrow> string" where
  "localCLIPath nodeModulesRoot = nodeModulesRoot @ ''/node_modules/.bin/react-native''"

text \<open>
  Modelled from the spec: \<open>selectReactNativeCLI\<close> first checks the project-local
  installed binary; if it is absent it falls back to the configured global command name
  (\<open>CommandExecutor.ReactNativeCommand\<close>, unset when empty). For the case that is left,
  no local binary and no global name, the spec names a hardcoded default, but the test
  suite of the repository decides it otherwise: its first test sets the global name to the
  empty string, runs after the preceding suite has removed \<open>node_modules\<close>, and expects
  the path of the project-local CLI. The test is followed, so the path is returned there
  whether or not the binary exists.
\<close>

definition selectReactNativeCLI :: "(string \<Rightarrow> bool) \<Rightarrow> string \<Rightarrow> string \<Rightarrow> string" where
  "selectReactNativeCLI fileExists nodeModulesRoot ReactNativeCommand =
     (if fileExists (localCLIPath nodeModulesRoot) then localCLIPath nodeModulesRoot
      else if ReactNativeCommand \<noteq> [] then ReactNativeCommand
      else localCLIPath nodeModulesRoot)"

text \<open>
  Modelled from the spec: \<open>spawnReactCommand\<close> spawns the selected CLI with the command
  followed by the extra arguments; the argument list may be omitted (\<open>None\<close>). The
  synchronous result is \<open>Inl\<close> for a throw and \<open>Inr\<close> for the handle.
\<close>

definition spawnReactCommand ::
  "(string \<Rightarrow> process_outcome) \<Rightarrow> (string \<Rightarrow> bool) \<Rightarrow> string \<Rightarrow> string \<Rightarrow> string
     \<Rightarrow> string list option \<Rightarrow> ErrorRecord + spawn_result"
where
  "spawnReactCommand os fileExists nodeModulesRoot ReactNativeCommand command args =
     Inr (spawn os (selectReactNativeCLI fileExists nodeModulesRoot ReactNativeCommand)
            (command # (case args of None \<Rightarrow> [] | Some xs \<Rightarrow> xs)))"

subsection \<open>The version probe\<close>

definition is_digit :: "char \<Rightarrow> bool" where
  "is_digit c = (c \<in> set ''0123456789'')"

definition next_component :: "string \<Rightarrow> string \<times> string" where
  "next_component r =
     (case r of
        c # d # rest \<Rightarrow>
          (if c = CHR ''.'' \<and> is_digit d
           then (takeWhile is_digit (d # rest), dropWhile is_digit (d # rest))
           else ([], r))
      | _ \<Rightarrow> ([], r))"

definition pad :: "string \<Rightarrow> string" where
  "pad x = (if x = [] then ''0'' else x)"

text \<open>
  Modelled from the spec: the probe returns a best-effort semantic version string. The
  cleaning keeps the first run of digits of the text and up to two further dot-separated
  runs that follow it, and writes \<open>0\<close> for a component that is not there, so
  \<open>^0.22.0\<close> is cleaned to \<open>0.22.0\<close>.
\<close>

definition clean_version :: "string \<Rightarrow> string" where
  "clean_version v =
     (let t = dropWhile (\<lambda>c. \<not> is_digit c) v;
          a = takeWhile is_digit t;
          (b, r) = next_component (dropWhile is_digit t);
          (c, r') = next_component r
      in pad a @ ''.'' @ pad b @ ''.'' @ pad c)"

text \<open>
  Modelled from the spec: \<open>getReactNativeVersion\<close> reads the version field of the
  installed package manifest; if the manifest lacks the field, it falls back to the
  version the project declares for the dependency (lock file entry or declared range).
\<close>

definition getReactNativeVersion :: "string option \<Rightarrow> string \<Rightarrow> string" where
  "getReactNativeVersion manifest_version declared_version =
     (case manifest_version of
        Some v \<Rightarrow> clean_version v
      | None \<Rightarrow> clean_version declared_version)"

fun split_on :: "char \<Rightarrow> string \<Rightarrow> string list" where
  "split_on d [] = [[]]"
| "split_on d (c # cs) =
     (if c = d then [] # split_on d cs
      else (case split_on d cs of [] \<Rightarrow> [[c]] | x # xs \<Rightarrow> (c # x) # xs))"

definition semver_shaped :: "string \<Rightarrow> bool" where
  "semver_shaped v =
     (length (split_on CHR ''.'' v) = 3 \<and>
      list_all (\<lambda>x. x \<noteq> [] \<and> list_all is_digit x) (split_on CHR ''.'' v))"

section \<open>A stand-in for the semver package\<close>

text \<open>
  The \<open>semver\<close> package is a dependency, not part of the repository; the handlers take
  its two functions from the environment. To run the handlers on concrete version text,
  this section gives one instance: the strict grammar of Semantic Versioning 2.0.0 with
  an optional leading \<open>v\<close> (numeric identifiers without leading zeros, prerelease
  after \<open>-\<close>, build metadata after \<open>+\<close>) and its precedence order.
\<close>

definition is_identifier_char :: "char \<Rightarrow> bool" where
  "is_identifier_char c =
     (c \<in> set ''0123456789abcdefghijklmnopqrstuvwxyzABCDEFGHIJKLMNOPQRSTUVWXYZ-'')"

definition numeric_identifier :: "string \<Rightarrow> bool" where
  "numeric_identifier x = (x \<noteq> [] \<and> list_all is_digit x \<and> (x = ''0'' \<or> hd x \<noteq> CHR ''0''))"

definition prerelease_identifier :: "string \<Rightarrow> bool" where
  "prerelease_identifier x =
     (x \<noteq> [] \<and> list_all is_identifier_char x \<and>
      (if list_all is_digit x then numeric_identifier x else True))"

definition build_identifier :: "string \<Rightarrow> bool" where
  "build_identifier x = (x \<noteq> [] \<and> list_all is_identifier_char x)"

definition nat_of_digits :: "string \<Rightarrow> nat" where
  "nat_of_digits x = foldl (\<lambda>n c. 10 * n + (of_char c - 48)) 0 x"

record SemVer =
  major :: nat
  minor :: nat
  patch :: nat
  prerelease :: "string list"

definition strip_v :: "string \<Rightarrow> string" where
  "strip_v version = (case version of [] \<Rightarrow> [] | c # r \<Rightarrow> if c = CHR ''v'' then r else c # r)"

definition semver_parse :: "string \<Rightarrow> SemVer option" where
  "semver_parse version =
     (let v = strip_v version;
          main_pre = takeWhile (\<lambda>c. c \<noteq> CHR ''+'') v;
          build = dropWhile (\<lambda>c. c \<noteq> CHR ''+'') v;
          main = takeWhile (\<lambda>c. c \<noteq> CHR ''-'') main_pre;
          pre = dropWhile (\<lambda>c. c \<noteq> CHR ''-'') main_pre;
          pre_ids = (if pre = [] then [] else split_on CHR ''.'' (tl pre));
          build_ids = (if build = [] then [] else split_on CHR ''.'' (tl build))
      in case split_on CHR ''.'' main of
           [a, b, c] \<Rightarrow>
             (if numeric_identifier a \<and> numeric_identifier b \<and> numeric_identifier c \<and>
                 list_all prerelease_identifier pre_ids \<and> list_all build_identifier build_ids
              then Some \<lparr>major = nat_of_digits a, minor = nat_of_digits b,
                          patch = nat_of_digits c, prerelease = pre_ids\<rparr>
              else None)
         | _ \<Rightarrow> None)"

definition standin_valid :: "string \<Rightarrow> string option" where
  "standin_valid version =
     (case semver_parse version of
        None \<Rightarrow> None
      | Some v \<Rightarrow> Some (takeWhile (\<lambda>c. c \<noteq> CHR ''+'') (strip_v version)))"

definition cmp :: "nat \<Rightarrow> nat \<Rightarrow> int" where
  "cmp a b = (if a < b then - 1 else if b < a then 1 else 0)"

fun string_less :: "string \<Rightarrow> string \<Rightarrow> bool" where
  "string_less [] [] = False"
| "string_less [] (y # ys) = True"
| "string_less (x # xs) [] = False"
| "string_less (x # xs) (y # ys) =
     ((of_char x :: nat) < of_char y \<or> (x = y \<and> string_less xs ys))"

definition compareIdentifiers :: "string \<Rightarrow> string \<Rightarrow> int" where
  "compareIdentifiers a b =
     (let anum = list_all is_digit a; bnum = list_all is_digit b
      in if anum \<and> bnum then cmp (nat_of_digits a) (nat_of_digits b)
         else if a = b then 0
         else if anum then - 1
         else if bnum then 1
         else if string_less a b then - 1 else 1)"

fun comparePreLists :: "string list \<Rightarrow> string list \<Rightarrow> int" where
  "comparePreLists [] [] = 0"
| "comparePreLists (a # as) [] = 1"
| "comparePreLists [] (b # bs) = - 1"
| "comparePreLists (a # as) (b # bs) =
     (if a = b then comparePreLists as bs else compareIdentifiers a b)"

definition compareMain :: "SemVer \<Rightarrow> SemVer \<Rightarrow> int" where
  "compareMain x y =
     (if major x \<noteq> major y then cmp (major x) (major y)
      else if minor x \<noteq> minor y then cmp (minor x) (minor y)
      else cmp (patch x) (patch y))"

definition comparePre :: "SemVer \<Rightarrow> SemVer \<Rightarrow> int" where
  "comparePre x y =
     (if prerelease x \<noteq> [] \<and> prerelease y = [] then - 1
      else if prerelease x = [] \<and> prerelease y \<noteq> [] then 1
      else comparePreLists (prerelease x) (prerelease y))"

definition compare_semver :: "SemVer \<Rightarrow> SemVer \<Rightarrow> int" where
  "compare_semver x y = (if compareMain x y \<noteq> 0 then compareMain x y else comparePre x y)"

text \<open>
  \<open>semver.gte\<close> throws on text that does not parse; \<open>isSupportedVersion\<close> only calls it
  on text that \<open>semver.valid\<close> accepted, so the value given here for other text is never
  looked at.
\<close>

definition standin_gte :: "string \<Rightarrow> string \<Rightarrow> bool" where
  "standin_gte a b =
     (case semver_parse a of
        None \<Rightarrow> False
      | Some x \<Rightarrow> (case semver_parse b of None \<Rightarrow> False | Some y \<Rightarrow> 0 \<le> compare_semver x y))"

section \<open>A concrete environment\<close>

text \<open>
  A workspace used to run the handlers: the folder \<open>/w/old\<close> holds React Native 0.18.0,
  \<open>/w/none\<close> has no detectable version, \<open>/w/custom\<close> a custom version text,
  \<open>/w/broken\<close> a project whose directory scaffolding fails, every other folder 0.63.4.
  Only \<open>/w/extra\<close> exists for \<open>createAdditionalWorkspaceFolder\<close>.
\<close>

definition example_versions :: "string \<Rightarrow> RNPackageVersions" where
  "example_versions root =
     \<lparr>reactNativeVersion =
        (if root = ''/w/old'' then ''0.18.0''
         else if root = ''/w/none'' then ''errorMissingPackageInNodeModules''
         else if root = ''/w/custom'' then ''0.2018.0107-v1''
         else ''0.63.4''),
      reactNativeWindowsVersion = ''errorMissingPackageInNodeModules'',
      reactNativeMacOSVersion = ''errorMissingPackageInNodeModules''\<rparr>"

definition example_env :: env where
  "example_env =
     \<lparr>existsSync = (\<lambda>p. p = ''/w/extra''),
      basename = (\<lambda>p. rev (takeWhile (\<lambda>c. c \<noteq> CHR ''/'') (rev p))),
      getReactNativeProjectRoot = (\<lambda>p. p),
      tryToGetRNSemverValidVersionsFromProjectPackage = example_versions,
      isVersionError = (\<lambda>v. take 5 v = ''error''),
      semver_valid = standin_valid,
      semver_gte = standin_gte,
      reactDirManager_setup = (\<lambda>p. if p = ''/w/broken'' then Some (Thrown ''EACCES'') else None),
      launcherMembers = (\<lambda>p. [(''reactDirManager'', Disposable None), (''logger'', Plain)]),
      runFunction_rejects = True\<rparr>"

definition folder :: "string \<Rightarrow> nat \<Rightarrow> WorkspaceFolder" where
  "folder p i = \<lparr>uri_fsPath = p, name = p, index = i\<rparr>"

section \<open>Notions used in the statements\<close>

text \<open>
  A member disposes cleanly when visiting it in the loop of \<open>onFolderRemoved\<close> cannot
  throw: it has no \<open>dispose\<close>, or its \<open>dispose\<close> returns normally.
\<close>

definition disposes_cleanly :: "string \<times> member \<Rightarrow> bool" where
  "disposes_cleanly km = (snd km = Plain \<or> snd km = Disposable None)"

text \<open>
  A state in which \<open>/w/app\<close> is registered and the launcher owns a packager whose
  \<open>dispose\<close> throws.
\<close>

definition state_with_failing_dispose :: state where
  "state_with_failing_dispose =
     \<lparr>projectsCache =
        [(''/w/app'', \<lparr>workspaceFolder = folder ''/w/app'' 0,
                        members = [(''reactDirManager'', Disposable None),
                                   (''packager'', Disposable (Some (Thrown ''kill EPERM'')))]\<rparr>)],
      COUNT_WORKSPACE_FOLDERS = 9001, subscriptions = [], effects = []\<rparr>"


text \<open>
  The project root and the React Native version that \<open>onFolderAdded\<close> computes for a
  folder.
\<close>

definition projectRoot :: "env \<Rightarrow> WorkspaceFolder \<Rightarrow> string" where
  "projectRoot e f = getReactNativeProjectRoot e (uri_fsPath f)"

definition detectedVersion :: "env \<Rightarrow> WorkspaceFolder \<Rightarrow> string" where
  "detectedVersion e f =
     reactNativeVersion (tryToGetRNSemverValidVersionsFromProjectPackage e (projectRoot e f))"

text \<open>
  The editor commands \<open>activateCommands\<close> issues, and everything \<open>onFolderAdded\<close> has
  emitted when it hands over to \<open>runFunction\<close>.
\<close>

definition activation_effects :: "env \<Rightarrow> RNPackageVersions \<Rightarrow> effect list" where
  "activation_effects e versions =
     (if \<not> isVersionError e (reactNativeWindowsVersion versions)
      then [SetContext IS_RN_WINDOWS_PROJECT] else []) @
     (if \<not> isVersionError e (reactNativeMacOSVersion versions)
      then [SetContext IS_RN_MACOS_PROJECT] else [])"

definition launch_prefix :: "env \<Rightarrow> WorkspaceFolder \<Rightarrow> effect list" where
  "launch_prefix e f =
     [LogDebug (''Add project: '' @ projectRoot e f),
      LogDebug (''React Native version: '' @ detectedVersion e f)] @
     activation_effects e (tryToGetRNSemverValidVersionsFromProjectPackage e (projectRoot e f))"

text \<open>A sequence that creates synthetic folders around a folder addition and removal.\<close>

definition example_operations :: "(env \<times> operation) list" where
  "example_operations =
     [(example_env, CreateAdditional ''/w/extra''),
      (example_env, FolderAdded (folder ''/w/app'' 0)),
      (example_env, CreateAdditional ''/w/extra''),
      (example_env, FolderRemoved (folder ''/w/app'' 0)),
      (example_env, CreateAdditional ''/w/extra'')]"


text \<open>
  The two failure modes of a process: it cannot be started, or it exits non-zero.
\<close>

fun failed :: "process_outcome \<Rightarrow> bool" where
  "failed (CannotStart reason) = True"
| "failed (Exited code out err) = (code \<noteq> 0)"

text \<open>
  An operating system for the scenarios of the test suite: \<open>bar\<close> is not a command,
  \<open>node install bad-package\<close> starts and exits with 1, everything else succeeds.
\<close>

definition example_os :: "string \<Rightarrow> process_outcome" where
  "example_os commandLine =
     (if commandLine = ''bar'' \<or> commandLine = ''bar -v'' then CannotStart ''spawn bar ENOENT''
      else if commandLine = ''node install bad-package''
        then Exited 1 [] ''Error: Cannot find module''
      else Exited 0 ''v12.22.0'' [])"

section \<open>Folder removal: eviction and teardown failures\<close>

lemma disposeMembers_clean:
  "list_all disposes_cleanly ms \<Longrightarrow>
     disposeMembers ms = (None, map (DisposeCall \<circ> fst) (filter (\<lambda>km. snd km = Disposable None) ms))"
  by (induction ms rule: disposeMembers.induct) (auto simp: disposes_cleanly_def)

lemma disposeMembers_throws:
  "\<not> list_all disposes_cleanly ms \<Longrightarrow> \<exists>err. fst (disposeMembers ms) = Some err"
  by (induction ms rule: disposeMembers.induct) (auto simp: disposes_cleanly_def split: prod.splits)

lemma disposeMembers_effects:
  "set (snd (disposeMembers ms)) \<subseteq> range DisposeCall"
  by (induction ms rule: disposeMembers.induct) (auto split: prod.splits)

text \<open>
  C1 (as amended). For a folder \<open>f\<close> whose launcher the registry finds: if every member
  of the launcher disposes cleanly, \<open>onFolderRemoved f\<close> returns normally, reaches
  \<open>delFolder\<close> and leaves no entry for \<open>f\<close>; if some member does not, the exception is
  not caught: \<open>onFolderRemoved f\<close> ends with it, \<open>delFolder\<close> is not reached and the
  registry is as it was.
\<close>

theorem onFolderRemoved_evicts:
  assumes "getFolder f (projectsCache s) = Inr l"
  shows "(list_all disposes_cleanly (members l) \<longrightarrow>
            fst (onFolderRemoved f s) = None \<and>
            \<not> registered f (snd (onFolderRemoved f s)) \<and>
            projectsCache (snd (onFolderRemoved f s)) = delFolder f (projectsCache s) \<and>
            DelFolderCall f \<in> set (effects (snd (onFolderRemoved f s)))) \<and>
         (\<not> list_all disposes_cleanly (members l) \<longrightarrow>
            fst (onFolderRemoved f s) \<noteq> None \<and>
            projectsCache (snd (onFolderRemoved f s)) = projectsCache s \<and>
            (\<exists>es. effects (snd (onFolderRemoved f s)) = effects s @ es \<and> DelFolderCall f \<notin> set es))"
proof (cases "list_all disposes_cleanly (members l)")
  case True
  then show ?thesis
    using assms
    by (auto simp: onFolderRemoved_def disposeMembers_clean emit_def Let_def registered_def
          delFolder_def)
next
  case False
  then obtain err where e: "fst (disposeMembers (members l)) = Some err"
    using disposeMembers_throws by blast
  obtain es where d: "disposeMembers (members l) = (Some err, es)"
    using e by (cases "disposeMembers (members l)") auto
  have "DelFolderCall f \<notin> set es"
    using disposeMembers_effects [of "members l"] d by auto
  then show ?thesis
    using assms False d by (simp add: onFolderRemoved_def emit_def)
qed

theorem onFolderRemoved_evicts_witness:
  "fst (onFolderRemoved (folder ''/w/app'' 0)
          (snd (onFolderAdded example_env (folder ''/w/app'' 0) initial_state))) = None \<and>
   \<not> registered (folder ''/w/app'' 0)
       (snd (onFolderRemoved (folder ''/w/app'' 0)
          (snd (onFolderAdded example_env (folder ''/w/app'' 0) initial_state)))) \<and>
   fst (onFolderRemoved (folder ''/w/app'' 0) state_with_failing_dispose) \<noteq> None \<and>
   projectsCache (snd (onFolderRemoved (folder ''/w/app'' 0) state_with_failing_dispose))
     = projectsCache state_with_failing_dispose"
proof -
  let ?f = "folder ''/w/app'' 0"
  let ?l = "newAppLauncher example_env ''/w/app'' ?f"
  let ?s = "snd (onFolderAdded example_env ?f initial_state)"
  have c: "projectsCache ?s = [(''/w/app'', ?l)]"
    by code_simp
  have g: "getFolder ?f (projectsCache ?s) = Inr ?l"
    unfolding c by (simp add: getFolder_def newAppLauncher_def)
  have m: "list_all disposes_cleanly (members ?l)"
    by (simp add: newAppLauncher_def example_env_def disposes_cleanly_def)
  let ?l2 = "\<lparr>workspaceFolder = ?f,
               members = [(''reactDirManager'', Disposable None),
                          (''packager'', Disposable (Some (Thrown ''kill EPERM'')))]\<rparr>"
  have g2: "getFolder ?f (projectsCache state_with_failing_dispose) = Inr ?l2"
    by (simp add: getFolder_def state_with_failing_dispose_def)
  have m2: "\<not> list_all disposes_cleanly (members ?l2)"
    by (simp add: disposes_cleanly_def)
  show ?thesis
    using onFolderRemoved_evicts [OF g] m onFolderRemoved_evicts [OF g2] m2 by blast
qed

text \<open>
  C1 as stated fails: with a packager whose \<open>dispose\<close> throws, \<open>onFolderRemoved\<close> ends
  with that exception after two dispose calls and the folder is still registered.
\<close>

theorem onFolderRemoved_dispose_throws_counterexample:
  "registered (folder ''/w/app'' 0) state_with_failing_dispose \<and>
   fst (onFolderRemoved (folder ''/w/app'' 0) state_with_failing_dispose)
     = Some (Thrown ''kill EPERM'') \<and>
   registered (folder ''/w/app'' 0)
     (snd (onFolderRemoved (folder ''/w/app'' 0) state_with_failing_dispose)) \<and>
   effects (snd (onFolderRemoved (folder ''/w/app'' 0) state_with_failing_dispose))
     = [DisposeCall ''reactDirManager'', DisposeCall ''packager'']"
  by (simp add: onFolderRemoved_def getFolder_def state_with_failing_dispose_def registered_def
        emit_def folder_def)

lemma getFolder_unregistered:
  "\<not> registered f s \<Longrightarrow>
     getFolder f (projectsCache s) = Inl (ProjectNotFound (map fst (projectsCache s)))"
proof -
  assume "\<not> registered f s"
  then have "find (\<lambda>(root, l). workspaceFolder l = f) (projectsCache s) = None"
    by (auto simp: registered_def find_None_iff)
  then show ?thesis by (simp add: getFolder_def)
qed

text \<open>
  C5 (as amended). \<open>onFolderRemoved\<close> on a folder that has no entry in the registry
  leaves the whole state, the registry included, unchanged, and ends with the
  project-not-found failure of the lookup.
\<close>

theorem onFolderRemoved_never_added:
  "\<not> registered f s \<Longrightarrow>
     onFolderRemoved f s = (Some (ProjectNotFound (map fst (projectsCache s))), s)"
  by (simp add: onFolderRemoved_def getFolder_unregistered)

theorem onFolderRemoved_never_added_witness:
  "\<not> registered (folder ''/w/app'' 0) initial_state \<and>
   onFolderRemoved (folder ''/w/app'' 0) initial_state = (Some (ProjectNotFound []), initial_state)"
proof -
  have h: "\<not> registered (folder ''/w/app'' 0) initial_state"
    by (simp add: registered_def initial_state_def)
  show ?thesis
    using h onFolderRemoved_never_added [OF h] by (simp add: initial_state_def)
qed

text \<open>
  C5 as stated fails: removing a folder from the empty registry is not silent.
\<close>

theorem onFolderRemoved_never_added_counterexample:
  "\<not> registered (folder ''/w/app'' 0) initial_state \<and>
   fst (onFolderRemoved (folder ''/w/app'' 0) initial_state) \<noteq> None"
  by (simp add: registered_def initial_state_def onFolderRemoved_def getFolder_def)

section \<open>Folder addition: the version gate and the launcher's preparation\<close>

lemma emit_emit [simp]: "emit es2 (emit es1 s) = emit (es1 @ es2) s"
  by (simp add: emit_def)

lemma emit_fields [simp]:
  "projectsCache (emit es s) = projectsCache s"
  "COUNT_WORKSPACE_FOLDERS (emit es s) = COUNT_WORKSPACE_FOLDERS s"
  "subscriptions (emit es s) = subscriptions s"
  "effects (emit es s) = effects s @ es"
  by (simp_all add: emit_def)

lemma activateCommands_emit:
  "activateCommands e versions s = emit (activation_effects e versions) s"
  by (simp add: activateCommands_def activation_effects_def emit_def Let_def)

lemma isSupportedVersion_fst:
  "fst (isSupportedVersion e v s) = (semver_valid e v = None \<or> semver_gte e v ''0.19.0'')"
  by (auto simp: isSupportedVersion_def)

lemma isSupportedVersion_True:
  "fst (isSupportedVersion e v s) \<Longrightarrow> isSupportedVersion e v s = (True, s)"
  by (auto simp: isSupportedVersion_def split: if_splits)

lemma isSupportedVersion_False:
  "\<not> fst (isSupportedVersion e v s) \<Longrightarrow>
     isSupportedVersion e v s =
       (False, emit [TelemetrySimpleEvent ''unsupportedRNVersion'' v,
                     ShowWarningMessage shortMessage,
                     LogWarning (shortMessage @ '': '' @ v)] s)"
  by (auto simp: isSupportedVersion_def split: if_splits)

text \<open>The ways \<open>onFolderAdded\<close> can go, one lemma for each.\<close>

lemma onFolderAdded_version_error:
  assumes "isVersionError e (detectedVersion e f)"
  shows "onFolderAdded e f s =
     (None, emit [LogDebug (''Add project: '' @ projectRoot e f),
                  LogDebug (''React Native version: '' @ detectedVersion e f),
                  LogDebug (''react-native package version is not found in '' @ projectRoot e f
                              @ ''. Reason: '' @ detectedVersion e f),
                  TelemetryErrorEvent ''AddProjectReactNativeVersionIsEmpty''
                    CouldNotFindProjectVersion (detectedVersion e f)] s)"
  using assms by (simp add: onFolderAdded_def Let_def projectRoot_def detectedVersion_def)

lemma onFolderAdded_unsupported:
  assumes "\<not> isVersionError e (detectedVersion e f)"
    and "\<not> fst (isSupportedVersion e (detectedVersion e f) s0)"
  shows "onFolderAdded e f s =
     (None, emit [LogDebug (''Add project: '' @ projectRoot e f),
                  LogDebug (''React Native version: '' @ detectedVersion e f),
                  TelemetrySimpleEvent ''unsupportedRNVersion'' (detectedVersion e f),
                  ShowWarningMessage shortMessage,
                  LogWarning (shortMessage @ '': '' @ detectedVersion e f),
                  LogDebug (''react-native@'' @ detectedVersion e f @ '' isn't supported'')] s)"
proof -
  have n: "\<not> fst (isSupportedVersion e (detectedVersion e f) s')" for s'
    using assms(2) by (simp add: isSupportedVersion_fst)
  show ?thesis
    using assms(1)
    by (simp add: onFolderAdded_def Let_def projectRoot_def [symmetric] detectedVersion_def [symmetric]
          isSupportedVersion_False [OF n])
qed

lemma onFolderAdded_supported:
  assumes "\<not> isVersionError e (detectedVersion e f)"
    and "fst (isSupportedVersion e (detectedVersion e f) s0)"
  shows "onFolderAdded e f s =
     runFunction e ''debugger.setupLauncherStub'' DebuggerStubLauncherFailed
       (setupLauncherStub e f (uri_fsPath f) (projectRoot e f))
       (emit (launch_prefix e f) s)"
proof -
  have n: "fst (isSupportedVersion e (detectedVersion e f) s')" for s'
    using assms(2) by (simp add: isSupportedVersion_fst)
  show ?thesis
    using assms(1)
    by (simp add: onFolderAdded_def Let_def projectRoot_def [symmetric] detectedVersion_def [symmetric]
          isSupportedVersion_True [OF n] activateCommands_emit launch_prefix_def)
qed

lemma launch_prefix_no_AddFolderCall: "AddFolderCall r \<notin> set (launch_prefix e f)"
  by (auto simp: launch_prefix_def activation_effects_def)

lemma run_setup_fails:
  assumes "reactDirManager_setup e p = Some err"
  shows "runFunction e n c (setupLauncherStub e f p root) s =
     (if runFunction_rejects e then Some err else None,
      emit [SetupCall p, ReportError n c] s)"
  using assms by (simp add: runFunction_def setupLauncherStub_def setupAndDispose_def)

lemma run_duplicate:
  assumes "reactDirManager_setup e p = None" and "root \<in> fst ` set (projectsCache s)"
  shows "runFunction e n c (setupLauncherStub e f p root) s =
     (if runFunction_rejects e then Some (DuplicateProject root) else None,
      (emit [SetupCall p, SetupDone p, AddFolderCall root, ReportError n c] s)
        \<lparr>subscriptions := subscriptions s @ [\<lparr>owner = p, isDisposed = False\<rparr>]\<rparr>)"
  using assms
  by (simp add: runFunction_def setupLauncherStub_def setupAndDispose_def addFolder_def Let_def
        emit_def)

lemma run_registers:
  assumes "reactDirManager_setup e p = None" and "root \<notin> fst ` set (projectsCache s)"
  shows "runFunction e n c (setupLauncherStub e f p root) s =
     (None,
      (emit [SetupCall p, SetupDone p, AddFolderCall root] s)
        \<lparr>subscriptions := subscriptions s @ [\<lparr>owner = p, isDisposed = False\<rparr>],
         projectsCache := projectsCache s @ [(root, newAppLauncher e p f)],
         COUNT_WORKSPACE_FOLDERS := COUNT_WORKSPACE_FOLDERS s + 1\<rparr>)"
  using assms
  by (simp add: runFunction_def setupLauncherStub_def setupAndDispose_def addFolder_def Let_def
        emit_def)


lemma onFolderAdded_cache:
  "projectsCache (snd (onFolderAdded e f s)) =
     (if \<not> isVersionError e (detectedVersion e f) \<and>
         fst (isSupportedVersion e (detectedVersion e f) s) \<and>
         reactDirManager_setup e (uri_fsPath f) = None \<and>
         projectRoot e f \<notin> fst ` set (projectsCache s)
      then projectsCache s @ [(projectRoot e f, newAppLauncher e (uri_fsPath f) f)]
      else projectsCache s)"
proof (cases "isVersionError e (detectedVersion e f)")
  case True
  then show ?thesis by (simp add: onFolderAdded_version_error)
next
  case ok: False
  show ?thesis
  proof (cases "fst (isSupportedVersion e (detectedVersion e f) s)")
    case False
    then show ?thesis using ok by (simp add: onFolderAdded_unsupported [OF ok False])
  next
    case sup: True
    note red = onFolderAdded_supported [OF ok sup]
    show ?thesis
    proof (cases "reactDirManager_setup e (uri_fsPath f)")
      case (Some err)
      then show ?thesis by (simp add: red run_setup_fails)
    next
      case None
      show ?thesis
      proof (cases "projectRoot e f \<in> fst ` set (projectsCache s)")
        case True
        then have "projectRoot e f \<in> fst ` set (projectsCache (emit (launch_prefix e f) s))"
          by simp
        from run_duplicate [OF None this] True show ?thesis
          by (simp add: red)
      next
        case False
        then have "projectRoot e f \<notin> fst ` set (projectsCache (emit (launch_prefix e f) s))"
          by simp
        from run_registers [OF None this] False ok sup None show ?thesis
          by (simp add: red)
      qed
    qed
  qed
qed

lemma onFolderAdded_count:
  "COUNT_WORKSPACE_FOLDERS (snd (onFolderAdded e f s)) =
     (if \<not> isVersionError e (detectedVersion e f) \<and>
         fst (isSupportedVersion e (detectedVersion e f) s) \<and>
         reactDirManager_setup e (uri_fsPath f) = None \<and>
         projectRoot e f \<notin> fst ` set (projectsCache s)
      then COUNT_WORKSPACE_FOLDERS s + 1
      else COUNT_WORKSPACE_FOLDERS s)"
proof (cases "isVersionError e (detectedVersion e f)")
  case True
  then show ?thesis by (simp add: onFolderAdded_version_error)
next
  case ok: False
  show ?thesis
  proof (cases "fst (isSupportedVersion e (detectedVersion e f) s)")
    case False
    then show ?thesis using ok by (simp add: onFolderAdded_unsupported [OF ok False])
  next
    case sup: True
    note red = onFolderAdded_supported [OF ok sup]
    show ?thesis
    proof (cases "reactDirManager_setup e (uri_fsPath f)")
      case (Some err)
      then show ?thesis by (simp add: red run_setup_fails)
    next
      case None
      show ?thesis
      proof (cases "projectRoot e f \<in> fst ` set (projectsCache s)")
        case True
        then have "projectRoot e f \<in> fst ` set (projectsCache (emit (launch_prefix e f) s))"
          by simp
        from run_duplicate [OF None this] True show ?thesis
          by (simp add: red)
      next
        case False
        then have "projectRoot e f \<notin> fst ` set (projectsCache (emit (launch_prefix e f) s))"
          by simp
        from run_registers [OF None this] False ok sup None show ?thesis
          by (simp add: red)
      qed
    qed
  qed
qed

text \<open>
  C3 (as amended). \<open>onFolderAdded\<close> appends a launcher for the project root of the
  folder exactly when the detected version is not a version error, the version passes
  \<open>isSupportedVersion\<close>, the launcher's preparation succeeds and the registry does not
  hold the root yet; in every other case the registry is left as it was. A version error is
  reported by a debug line and a telemetry error event; an unsupported version by the
  telemetry event and warning of \<open>isSupportedVersion\<close> and a debug line.
\<close>

theorem onFolderAdded_registers_iff:
  "projectsCache (snd (onFolderAdded e f s)) =
     (if \<not> isVersionError e (detectedVersion e f) \<and>
         fst (isSupportedVersion e (detectedVersion e f) s) \<and>
         reactDirManager_setup e (uri_fsPath f) = None \<and>
         projectRoot e f \<notin> fst ` set (projectsCache s)
      then projectsCache s @ [(projectRoot e f, newAppLauncher e (uri_fsPath f) f)]
      else projectsCache s) \<and>
   (isVersionError e (detectedVersion e f) \<longrightarrow>
      LogDebug (''react-native package version is not found in '' @ projectRoot e f
                  @ ''. Reason: '' @ detectedVersion e f)
        \<in> set (effects (snd (onFolderAdded e f s))) \<and>
      TelemetryErrorEvent ''AddProjectReactNativeVersionIsEmpty'' CouldNotFindProjectVersion
          (detectedVersion e f)
        \<in> set (effects (snd (onFolderAdded e f s)))) \<and>
   (\<not> isVersionError e (detectedVersion e f) \<and>
    \<not> fst (isSupportedVersion e (detectedVersion e f) s) \<longrightarrow>
      TelemetrySimpleEvent ''unsupportedRNVersion'' (detectedVersion e f)
        \<in> set (effects (snd (onFolderAdded e f s))) \<and>
      LogWarning (shortMessage @ '': '' @ detectedVersion e f)
        \<in> set (effects (snd (onFolderAdded e f s))) \<and>
      LogDebug (''react-native@'' @ detectedVersion e f @ '' isn't supported'')
        \<in> set (effects (snd (onFolderAdded e f s))))"
proof (intro conjI impI)
  show "projectsCache (snd (onFolderAdded e f s)) =
     (if \<not> isVersionError e (detectedVersion e f) \<and>
         fst (isSupportedVersion e (detectedVersion e f) s) \<and>
         reactDirManager_setup e (uri_fsPath f) = None \<and>
         projectRoot e f \<notin> fst ` set (projectsCache s)
      then projectsCache s @ [(projectRoot e f, newAppLauncher e (uri_fsPath f) f)]
      else projectsCache s)"
    by (rule onFolderAdded_cache)
next
  assume v: "isVersionError e (detectedVersion e f)"
  show "LogDebug (''react-native package version is not found in '' @ projectRoot e f
                  @ ''. Reason: '' @ detectedVersion e f)
        \<in> set (effects (snd (onFolderAdded e f s)))"
    by (simp add: onFolderAdded_version_error [OF v])
  show "TelemetryErrorEvent ''AddProjectReactNativeVersionIsEmpty'' CouldNotFindProjectVersion
          (detectedVersion e f) \<in> set (effects (snd (onFolderAdded e f s)))"
    by (simp add: onFolderAdded_version_error [OF v])
next
  assume "\<not> isVersionError e (detectedVersion e f) \<and>
    \<not> fst (isSupportedVersion e (detectedVersion e f) s)"
  then have ok: "\<not> isVersionError e (detectedVersion e f)"
    and un: "\<not> fst (isSupportedVersion e (detectedVersion e f) s)" by simp_all
  show "TelemetrySimpleEvent ''unsupportedRNVersion'' (detectedVersion e f)
        \<in> set (effects (snd (onFolderAdded e f s)))"
    by (simp add: onFolderAdded_unsupported [OF ok un])
  show "LogWarning (shortMessage @ '': '' @ detectedVersion e f)
        \<in> set (effects (snd (onFolderAdded e f s)))"
    by (simp add: onFolderAdded_unsupported [OF ok un])
  show "LogDebug (''react-native@'' @ detectedVersion e f @ '' isn't supported'')
        \<in> set (effects (snd (onFolderAdded e f s)))"
    by (simp add: onFolderAdded_unsupported [OF ok un])
qed

lemma folder_path [simp]: "uri_fsPath (folder p i) = p"
  by (simp add: folder_def)

lemma example_detected:
  "detectedVersion example_env (folder p i) = reactNativeVersion (example_versions p)"
  "projectRoot example_env (folder p i) = p"
  by (simp_all add: detectedVersion_def projectRoot_def example_env_def folder_def)

lemma valid_0_63_4: "standin_valid ''0.63.4'' = Some ''0.63.4''"
  by (simp add: standin_valid_def semver_parse_def strip_v_def numeric_identifier_def is_digit_def)

lemma valid_0_18_0: "standin_valid ''0.18.0'' = Some ''0.18.0''"
  by (simp add: standin_valid_def semver_parse_def strip_v_def numeric_identifier_def is_digit_def)

lemma valid_custom: "standin_valid ''0.2018.0107-v1'' = None"
  by (simp add: standin_valid_def semver_parse_def strip_v_def numeric_identifier_def is_digit_def)

lemma gte_0_63_4: "standin_gte ''0.63.4'' ''0.19.0''"
  by (simp add: standin_gte_def semver_parse_def strip_v_def numeric_identifier_def is_digit_def
        compare_semver_def compareMain_def comparePre_def cmp_def nat_of_digits_def)

lemma gte_0_18_0: "\<not> standin_gte ''0.18.0'' ''0.19.0''"
  by (simp add: standin_gte_def semver_parse_def strip_v_def numeric_identifier_def is_digit_def
        compare_semver_def compareMain_def comparePre_def cmp_def nat_of_digits_def)


theorem onFolderAdded_registers_iff_witness:
  "projectsCache (snd (onFolderAdded example_env (folder ''/w/app'' 0) initial_state))
     = [(''/w/app'', newAppLauncher example_env ''/w/app'' (folder ''/w/app'' 0))] \<and>
   isVersionError example_env (detectedVersion example_env (folder ''/w/none'' 1)) \<and>
   TelemetryErrorEvent ''AddProjectReactNativeVersionIsEmpty'' CouldNotFindProjectVersion
       ''errorMissingPackageInNodeModules''
     \<in> set (effects (snd (onFolderAdded example_env (folder ''/w/none'' 1) initial_state))) \<and>
   projectsCache (snd (onFolderAdded example_env (folder ''/w/none'' 1) initial_state)) = [] \<and>
   \<not> isVersionError example_env (detectedVersion example_env (folder ''/w/old'' 2)) \<and>
   \<not> fst (isSupportedVersion example_env (detectedVersion example_env (folder ''/w/old'' 2))
             initial_state) \<and>
   TelemetrySimpleEvent ''unsupportedRNVersion'' ''0.18.0''
     \<in> set (effects (snd (onFolderAdded example_env (folder ''/w/old'' 2) initial_state))) \<and>
   projectsCache (snd (onFolderAdded example_env (folder ''/w/old'' 2) initial_state)) = []"
proof -
  have env: "isVersionError example_env = (\<lambda>v. take 5 v = ''error'')"
    "semver_valid example_env = standin_valid" "semver_gte example_env = standin_gte"
    "reactDirManager_setup example_env ''/w/app'' = None"
    by (simp_all add: example_env_def)
  have init: "projectsCache initial_state = []"
    by (simp add: initial_state_def)
  show ?thesis
    using onFolderAdded_registers_iff [of example_env "folder ''/w/app'' 0" initial_state]
      onFolderAdded_registers_iff [of example_env "folder ''/w/none'' 1" initial_state]
      onFolderAdded_registers_iff [of example_env "folder ''/w/old'' 2" initial_state]
    by (simp add: example_detected example_versions_def isSupportedVersion_fst env init
          valid_0_63_4 gte_0_63_4 valid_0_18_0 gte_0_18_0)
qed

text \<open>
  C3 as stated fails: for \<open>/w/broken\<close> the version 0.63.4 is detected and passes the
  gate, yet no launcher is added, because the preparation of the launcher throws.
\<close>

theorem onFolderAdded_setup_fails_counterexample:
  "\<not> isVersionError example_env (detectedVersion example_env (folder ''/w/broken'' 0)) \<and>
   fst (isSupportedVersion example_env (detectedVersion example_env (folder ''/w/broken'' 0))
          initial_state) \<and>
   projectsCache (snd (onFolderAdded example_env (folder ''/w/broken'' 0) initial_state)) = []"
proof -
  have env: "isVersionError example_env = (\<lambda>v. take 5 v = ''error'')"
    "semver_valid example_env = standin_valid" "semver_gte example_env = standin_gte"
    "reactDirManager_setup example_env ''/w/broken'' = Some (Thrown ''EACCES'')"
    by (simp_all add: example_env_def)
  have init: "projectsCache initial_state = []"
    by (simp add: initial_state_def)
  show ?thesis
    using onFolderAdded_cache [of example_env "folder ''/w/broken'' 0" initial_state]
    by (simp add: example_detected example_versions_def isSupportedVersion_fst env init
          valid_0_63_4 gte_0_63_4)
qed

lemma no_add_ordered:
  assumes "\<And>r. AddFolderCall r \<notin> set es"
  shows "\<forall>pre r post. es = pre @ AddFolderCall r # post \<longrightarrow> SetupDone p \<in> set pre"
proof (intro allI impI)
  fix pre r post
  assume "es = pre @ AddFolderCall r # post"
  then have "AddFolderCall r \<in> set es" by simp
  then show "SetupDone p \<in> set pre" using assms by blast
qed

lemma add_after_setup:
  assumes "\<And>r. AddFolderCall r \<notin> set A" and "\<And>r. AddFolderCall r \<notin> set B"
  shows "\<forall>pre r post. A @ [SetupCall p, SetupDone p, AddFolderCall root] @ B
            = pre @ AddFolderCall r # post \<longrightarrow> SetupDone p \<in> set pre"
proof (intro allI impI)
  fix pre r post
  assume eq: "A @ [SetupCall p, SetupDone p, AddFolderCall root] @ B = pre @ AddFolderCall r # post"
  have "AddFolderCall r \<in> set (A @ [SetupCall p, SetupDone p, AddFolderCall root] @ B)"
    unfolding eq by simp
  then have r: "r = root"
    using assms by auto
  have "(A @ [SetupCall p, SetupDone p]) @ AddFolderCall root # B = pre @ AddFolderCall root # post"
    using eq r by simp
  moreover have "AddFolderCall root \<notin> set (A @ [SetupCall p, SetupDone p])"
    using assms(1) by simp
  ultimately have "A @ [SetupCall p, SetupDone p] = pre"
    using assms(2) append_Cons_eq_iff by metis
  then show "SetupDone p \<in> set pre" by auto
qed

text \<open>
  C4. In the effects of one \<open>onFolderAdded\<close>, every call of \<open>addFolder\<close> comes after
  the completion of the preparation for the folder's root path. If the preparation fails,
  \<open>addFolder\<close> is not called at all, and the registry and the counter are unchanged.
\<close>

theorem setup_precedes_registration:
  "\<exists>es. effects (snd (onFolderAdded e f s)) = effects s @ es \<and>
     (\<forall>pre r post. es = pre @ AddFolderCall r # post \<longrightarrow> SetupDone (uri_fsPath f) \<in> set pre) \<and>
     (reactDirManager_setup e (uri_fsPath f) \<noteq> None \<longrightarrow>
        (\<forall>r. AddFolderCall r \<notin> set es) \<and>
        projectsCache (snd (onFolderAdded e f s)) = projectsCache s \<and>
        COUNT_WORKSPACE_FOLDERS (snd (onFolderAdded e f s)) = COUNT_WORKSPACE_FOLDERS s)"
proof (cases "isVersionError e (detectedVersion e f)")
  case True
  show ?thesis
    unfolding onFolderAdded_version_error [OF True]
    by (rule exI [of _ "[LogDebug (''Add project: '' @ projectRoot e f),
                  LogDebug (''React Native version: '' @ detectedVersion e f),
                  LogDebug (''react-native package version is not found in '' @ projectRoot e f
                              @ ''. Reason: '' @ detectedVersion e f),
                  TelemetryErrorEvent ''AddProjectReactNativeVersionIsEmpty''
                    CouldNotFindProjectVersion (detectedVersion e f)]"])
       (simp add: Cons_eq_append_conv)
next
  case ok: False
  show ?thesis
  proof (cases "fst (isSupportedVersion e (detectedVersion e f) s)")
    case False
    show ?thesis
      unfolding onFolderAdded_unsupported [OF ok False]
      by (rule exI [of _ "[LogDebug (''Add project: '' @ projectRoot e f),
                  LogDebug (''React Native version: '' @ detectedVersion e f),
                  TelemetrySimpleEvent ''unsupportedRNVersion'' (detectedVersion e f),
                  ShowWarningMessage shortMessage,
                  LogWarning (shortMessage @ '': '' @ detectedVersion e f),
                  LogDebug (''react-native@'' @ detectedVersion e f @ '' isn't supported'')]"])
         (simp add: Cons_eq_append_conv)
  next
    case sup: True
    note red = onFolderAdded_supported [OF ok sup]
    let ?p = "uri_fsPath f"
    let ?n = "''debugger.setupLauncherStub''"
    have pre: "AddFolderCall r \<notin> set (launch_prefix e f)" for r
      by (rule launch_prefix_no_AddFolderCall)
    show ?thesis
    proof (cases "reactDirManager_setup e ?p")
      case (Some err)
      have no: "AddFolderCall r \<notin> set (launch_prefix e f @ [SetupCall ?p, ReportError ?n DebuggerStubLauncherFailed])" for r
        using pre by simp
      show ?thesis
        unfolding red run_setup_fails [OF Some]
        by (rule exI [of _ "launch_prefix e f @ [SetupCall ?p, ReportError ?n DebuggerStubLauncherFailed]"])
           (use no no_add_ordered [OF no] in simp)
    next
      case None
      show ?thesis
      proof (cases "projectRoot e f \<in> fst ` set (projectsCache s)")
        case True
        then have d: "projectRoot e f \<in> fst ` set (projectsCache (emit (launch_prefix e f) s))"
          by simp
        have "\<forall>pre r post. launch_prefix e f @ [SetupCall ?p, SetupDone ?p, AddFolderCall (projectRoot e f)]
                @ [ReportError ?n DebuggerStubLauncherFailed] = pre @ AddFolderCall r # post
                \<longrightarrow> SetupDone ?p \<in> set pre"
          by (rule add_after_setup) (use pre in simp_all)
        then show ?thesis
          unfolding red run_duplicate [OF None d]
          by (intro exI [of _ "launch_prefix e f @ [SetupCall ?p, SetupDone ?p,
                 AddFolderCall (projectRoot e f), ReportError ?n DebuggerStubLauncherFailed]"])
             (simp add: None)
      next
        case False
        then have d: "projectRoot e f \<notin> fst ` set (projectsCache (emit (launch_prefix e f) s))"
          by simp
        have "\<forall>pre r post. launch_prefix e f @ [SetupCall ?p, SetupDone ?p, AddFolderCall (projectRoot e f)]
                @ [] = pre @ AddFolderCall r # post
                \<longrightarrow> SetupDone ?p \<in> set pre"
          by (rule add_after_setup) (use pre in simp_all)
        then show ?thesis
          unfolding red run_registers [OF None d]
          by (intro exI [of _ "launch_prefix e f @ [SetupCall ?p, SetupDone ?p,
                 AddFolderCall (projectRoot e f)]"])
             (simp add: None)
      qed
    qed
  qed
qed


theorem setup_precedes_registration_witness:
  "reactDirManager_setup example_env (uri_fsPath (folder ''/w/broken'' 0)) \<noteq> None \<and>
   (\<forall>r. AddFolderCall r
      \<notin> set (effects (snd (onFolderAdded example_env (folder ''/w/broken'' 0) initial_state)))) \<and>
   projectsCache (snd (onFolderAdded example_env (folder ''/w/broken'' 0) initial_state)) = [] \<and>
   effects (snd (onFolderAdded example_env (folder ''/w/app'' 0) initial_state))
     = [LogDebug ''Add project: /w/app'', LogDebug ''React Native version: 0.63.4'',
        SetupCall ''/w/app'', SetupDone ''/w/app''] @ AddFolderCall ''/w/app'' # [] \<and>
   SetupDone (uri_fsPath (folder ''/w/app'' 0))
     \<in> set [LogDebug ''Add project: /w/app'', LogDebug ''React Native version: 0.63.4'',
            SetupCall ''/w/app'', SetupDone ''/w/app'']"
proof -
  have init: "effects initial_state = []" "projectsCache initial_state = []"
    by (simp_all add: initial_state_def)
  have b: "reactDirManager_setup example_env (uri_fsPath (folder ''/w/broken'' 0)) \<noteq> None"
    by (simp add: example_env_def)
  have a: "effects (snd (onFolderAdded example_env (folder ''/w/app'' 0) initial_state))
     = [LogDebug ''Add project: /w/app'', LogDebug ''React Native version: 0.63.4'',
        SetupCall ''/w/app'', SetupDone ''/w/app''] @ AddFolderCall ''/w/app'' # []"
    by code_simp
  from setup_precedes_registration [of example_env "folder ''/w/broken'' 0" initial_state] b init
  have 1: "(\<forall>r. AddFolderCall r
      \<notin> set (effects (snd (onFolderAdded example_env (folder ''/w/broken'' 0) initial_state)))) \<and>
   projectsCache (snd (onFolderAdded example_env (folder ''/w/broken'' 0) initial_state)) = []"
    by auto
  from setup_precedes_registration [of example_env "folder ''/w/app'' 0" initial_state] init a
  have 2: "SetupDone (uri_fsPath (folder ''/w/app'' 0))
     \<in> set [LogDebug ''Add project: /w/app'', LogDebug ''React Native version: 0.63.4'',
            SetupCall ''/w/app'', SetupDone ''/w/app'']"
    by (metis append_Nil)
  show ?thesis using 1 2 a b by blast
qed

section \<open>The synthetic folder index\<close>

lemma onFolderRemoved_count:
  "COUNT_WORKSPACE_FOLDERS (snd (onFolderRemoved f s)) = COUNT_WORKSPACE_FOLDERS s"
  by (simp add: onFolderRemoved_def Let_def split: sum.splits prod.splits option.splits)

lemma createAdditionalWorkspaceFolder_count:
  "createAdditionalWorkspaceFolder e p s = (r, s') \<Longrightarrow>
     (case r of
        None \<Rightarrow> COUNT_WORKSPACE_FOLDERS s' = COUNT_WORKSPACE_FOLDERS s
      | Some d \<Rightarrow> index d = COUNT_WORKSPACE_FOLDERS s + 1 \<and>
                  COUNT_WORKSPACE_FOLDERS s' = COUNT_WORKSPACE_FOLDERS s + 1)"
  by (auto simp: createAdditionalWorkspaceFolder_def Let_def split: if_splits)

text \<open>
  One operation never lowers the counter, and an index it issues lies above the counter
  before the operation and not above the counter after it.
\<close>

lemma step_count:
  "COUNT_WORKSPACE_FOLDERS s \<le> COUNT_WORKSPACE_FOLDERS (snd (step x s)) \<and>
   (\<forall>i. fst (step x s) = Some i \<longrightarrow>
      COUNT_WORKSPACE_FOLDERS s < i \<and> i \<le> COUNT_WORKSPACE_FOLDERS (snd (step x s)))"
proof (cases x)
  case (Pair e op)
  show ?thesis
  proof (cases op)
    case (FolderAdded f)
    then show ?thesis using Pair by (simp add: onFolderAdded_count)
  next
    case (FolderRemoved f)
    then show ?thesis using Pair by (simp add: onFolderRemoved_count)
  next
    case (CreateAdditional p)
    obtain r s' where c: "createAdditionalWorkspaceFolder e p s = (r, s')"
      by (cases "createAdditionalWorkspaceFolder e p s") auto
    from createAdditionalWorkspaceFolder_count [OF c] show ?thesis
      using Pair CreateAdditional c by (cases r) auto
  qed
qed

lemma final_state_count:
  "COUNT_WORKSPACE_FOLDERS s \<le> COUNT_WORKSPACE_FOLDERS (final_state xs s)"
proof (induction xs arbitrary: s)
  case Nil
  show ?case by simp
next
  case (Cons x xs)
  have "COUNT_WORKSPACE_FOLDERS s \<le> COUNT_WORKSPACE_FOLDERS (snd (step x s))"
    using step_count by blast
  also have "\<dots> \<le> COUNT_WORKSPACE_FOLDERS (final_state xs (snd (step x s)))"
    by (rule Cons.IH)
  finally show ?case by simp
qed

lemma final_state_append: "final_state (xs @ ys) s = final_state ys (final_state xs s)"
  by (induction xs arbitrary: s) simp_all

lemma issued_increasing:
  "sorted_wrt (<) (issued xs s) \<and>
   (\<forall>i \<in> set (issued xs s).
      COUNT_WORKSPACE_FOLDERS s < i \<and> i \<le> COUNT_WORKSPACE_FOLDERS (final_state xs s))"
proof (induction xs arbitrary: s)
  case Nil
  show ?case by simp
next
  case (Cons x xs)
  let ?s1 = "snd (step x s)"
  have 1: "COUNT_WORKSPACE_FOLDERS s \<le> COUNT_WORKSPACE_FOLDERS ?s1"
    using step_count by blast
  have 2: "COUNT_WORKSPACE_FOLDERS s < i \<and> i \<le> COUNT_WORKSPACE_FOLDERS ?s1"
    if "fst (step x s) = Some i" for i
    using step_count that by blast
  have 3: "COUNT_WORKSPACE_FOLDERS ?s1 \<le> COUNT_WORKSPACE_FOLDERS (final_state xs ?s1)"
    by (rule final_state_count)
  have 4: "sorted_wrt (<) (issued xs ?s1)"
    and 5: "\<And>i. i \<in> set (issued xs ?s1) \<Longrightarrow>
              COUNT_WORKSPACE_FOLDERS ?s1 < i \<and> i \<le> COUNT_WORKSPACE_FOLDERS (final_state xs ?s1)"
    using Cons.IH [of ?s1] by auto
  show ?case
  proof (cases "fst (step x s)")
    case None
    then show ?thesis using 1 4 5 by fastforce
  next
    case (Some i)
    then show ?thesis using 1 2 [OF Some] 3 4 5 by (fastforce simp: sorted_wrt_append)
  qed
qed

text \<open>
  C2. Start from the initial state, where the counter is 9000, and run any sequence of
  folder additions, folder removals and calls of \<open>createAdditionalWorkspaceFolder\<close>, each
  in an environment of its own. The counter after a prefix of the sequence is at most the
  counter after the whole sequence; the indices issued form a strictly increasing list, so
  each is greater than all issued before it; and each is greater than 9000. The counter is
  a JavaScript number that only ever holds integers; it is modelled as a natural number.
\<close>

theorem synthetic_index_counter_monotone:
  "COUNT_WORKSPACE_FOLDERS (final_state xs initial_state)
     \<le> COUNT_WORKSPACE_FOLDERS (final_state (xs @ ys) initial_state) \<and>
   sorted_wrt (<) (issued xs initial_state) \<and>
   (\<forall>i \<in> set (issued xs initial_state). 9000 < i)"
proof -
  have "COUNT_WORKSPACE_FOLDERS initial_state = 9000"
    by (simp add: initial_state_def)
  then show ?thesis
    using issued_increasing [of xs initial_state]
      final_state_count [of "final_state xs initial_state" ys]
    by (simp add: final_state_append)
qed

theorem synthetic_index_counter_monotone_witness:
  "issued example_operations initial_state = [9001, 9003, 9004] \<and>
   list_all (\<lambda>i. 9000 < i) (issued example_operations initial_state) \<and>
   sorted_wrt (<) (issued example_operations initial_state) \<and>
   COUNT_WORKSPACE_FOLDERS (final_state example_operations initial_state)
     \<le> COUNT_WORKSPACE_FOLDERS
          (final_state (example_operations @ example_operations) initial_state)"
proof -
  have "issued example_operations initial_state = [9001, 9003, 9004]"
    by code_simp
  then show ?thesis
    using synthetic_index_counter_monotone [of example_operations example_operations] by simp
qed

section \<open>The minimum-version gate\<close>

text \<open>
  C10. Whatever the \<open>semver\<close> functions are, \<open>isSupportedVersion\<close> returns true for
  every version text for which \<open>semver.valid\<close> returns null; it returns false only for
  text that \<open>semver.valid\<close> accepts and that is not at or above 0.19.0.
\<close>

theorem isSupportedVersion_non_semver:
  "(semver_valid e v = None \<longrightarrow> fst (isSupportedVersion e v s)) \<and>
   (\<not> fst (isSupportedVersion e v s) \<longleftrightarrow>
      (\<exists>c. semver_valid e v = Some c) \<and> \<not> semver_gte e v ''0.19.0'')"
  by (auto simp: isSupportedVersion_def)

theorem isSupportedVersion_non_semver_witness:
  "semver_valid example_env ''0.2018.0107-v1'' = None \<and>
   fst (isSupportedVersion example_env ''0.2018.0107-v1'' initial_state) \<and>
   \<not> fst (isSupportedVersion example_env ''0.18.0'' initial_state) \<and>
   semver_valid example_env ''0.18.0'' = Some ''0.18.0'' \<and>
   \<not> semver_gte example_env ''0.18.0'' ''0.19.0''"
proof -
  have env: "semver_valid example_env = standin_valid" "semver_gte example_env = standin_gte"
    by (simp_all add: example_env_def)
  show ?thesis
    using isSupportedVersion_non_semver [of example_env "''0.2018.0107-v1''" initial_state]
      isSupportedVersion_non_semver [of example_env "''0.18.0''" initial_state]
    by (simp add: env valid_custom valid_0_18_0 gte_0_18_0)
qed

section \<open>CommandExecutor: resolution, failures, spawning and the version probe\<close>

text \<open>
  The two tests of the repository for the resolution, in the state they run in (no local
  binary under the fixture): with the global name empty the result is the path of the
  local CLI, with the global name set to a hash it is the hash. No test runs with a local
  binary present and a global name set; there the definition has only the spec to follow.
\<close>

lemma selectReactNativeCLI_repository_tests:
  "selectReactNativeCLI (\<lambda>p. False) fixture [] = localCLIPath fixture"
  "hash \<noteq> [] \<Longrightarrow> selectReactNativeCLI (\<lambda>p. False) fixture hash = hash"
  by (simp_all add: selectReactNativeCLI_def)

text \<open>
  C8. On the failure classification of the spec: a command that cannot be started and a
  command that exits non-zero both reach the caller as an error record with code 101 at
  level Error, from \<open>execute\<close> as its failure and from \<open>spawn\<close> as the failure of the
  completion signal. (The tests read the level of these records as 0.)
\<close>

theorem command_failures_carry_CommandFailed:
  "(failed (os commandLine) \<longrightarrow>
      (\<exists>r. execute os commandLine = Inl r \<and> errorCode r = 101 \<and> errorLevel r = Error)) \<and>
   (failed (os (join_words (command # args))) \<longrightarrow>
      (\<exists>r. outcome (spawn os command args) = Some r \<and> errorCode r = 101 \<and> errorLevel r = Error))"
proof (intro conjI impI)
  assume "failed (os commandLine)"
  then show "\<exists>r. execute os commandLine = Inl r \<and> errorCode r = 101 \<and> errorLevel r = Error"
    by (cases "os commandLine") (simp_all add: execute_def commandFailedError_def CommandFailed_def)
next
  assume "failed (os (join_words (command # args)))"
  then show "\<exists>r. outcome (spawn os command args) = Some r \<and> errorCode r = 101 \<and> errorLevel r = Error"
    by (cases "os (join_words (command # args))")
       (simp_all add: spawn_def Let_def commandFailedError_def CommandFailed_def)
qed

theorem command_failures_carry_CommandFailed_witness:
  "failed (example_os ''bar'') \<and>
   (\<exists>r. execute example_os ''bar'' = Inl r \<and> errorCode r = 101 \<and> errorLevel r = Error) \<and>
   failed (example_os ''node install bad-package'') \<and>
   (\<exists>r. execute example_os ''node install bad-package'' = Inl r \<and> errorCode r = 101 \<and>
        errorLevel r = Error) \<and>
   failed (example_os (join_words [''bar'', ''-v''])) \<and>
   (\<exists>r. outcome (spawn example_os ''bar'' [''-v'']) = Some r \<and> errorCode r = 101 \<and>
        errorLevel r = Error)"
proof -
  have 1: "failed (example_os ''bar'')"
    by (simp add: example_os_def)
  have 2: "failed (example_os ''node install bad-package'')"
    by (simp add: example_os_def)
  have 3: "failed (example_os (join_words [''bar'', ''-v'']))"
    by (simp add: example_os_def)
  show ?thesis
    using 1 2 3
      command_failures_carry_CommandFailed [of example_os "''bar''" "''bar''" "[''-v'']"]
      command_failures_carry_CommandFailed [of example_os "''node install bad-package''" "''bar''" "[''-v'']"]
    by blast
qed

text \<open>
  C9. On the contract of the spec: \<open>spawnReactCommand\<close> called with a command and no
  argument list does not throw; it returns the handle of the spawn of the selected CLI
  with the command as its only argument, and the completion signal of that handle fails
  exactly when the process fails.
\<close>

theorem spawnReactCommand_without_arguments:
  "spawnReactCommand os fileExists root g command None
     = Inr (spawn os (selectReactNativeCLI fileExists root g) [command]) \<and>
   (outcome (spawn os (selectReactNativeCLI fileExists root g) [command]) \<noteq> None) =
     failed (os (join_words [selectReactNativeCLI fileExists root g, command]))"
proof -
  have "(outcome (spawn os c [command]) \<noteq> None) = failed (os (join_words [c, command]))" for c
    by (cases "os (join_words [c, command])") (simp_all add: spawn_def Let_def)
  then show ?thesis
    by (simp add: spawnReactCommand_def)
qed

theorem spawnReactCommand_without_arguments_witness:
  "spawnReactCommand example_os (\<lambda>p. False) ''/proj'' ''react-native'' ''run-ios'' None
     = Inr (spawn example_os ''react-native'' [''run-ios'']) \<and>
   outcome (spawn example_os ''react-native'' [''run-ios'']) = None \<and>
   \<not> failed (example_os ''react-native run-ios'')"
proof -
  have c: "selectReactNativeCLI (\<lambda>p. False) ''/proj'' ''react-native'' = ''react-native''"
    by (simp add: selectReactNativeCLI_def)
  have f: "\<not> failed (example_os ''react-native run-ios'')"
    by (simp add: example_os_def)
  show ?thesis
    using spawnReactCommand_without_arguments
            [of example_os "\<lambda>p. False" "''/proj''" "''react-native''" "''run-ios''"] f
    unfolding c by simp
qed

lemma is_digit_dot [simp]: "\<not> is_digit CHR ''.''"
  by (simp add: is_digit_def)

lemma split_on_digits:
  "list_all is_digit x \<Longrightarrow> split_on CHR ''.'' x = [x]"
  by (induction x) auto

lemma split_on_digits_dot:
  "list_all is_digit x \<Longrightarrow> split_on CHR ''.'' (x @ CHR ''.'' # r) = x # split_on CHR ''.'' r"
  by (induction x) auto

lemma digits_takeWhile [simp]: "list_all is_digit (takeWhile is_digit t)"
  by (induction t) auto

lemma digits_pad: "list_all is_digit x \<Longrightarrow> list_all is_digit (pad x) \<and> pad x \<noteq> []"
  by (simp add: pad_def is_digit_def)

lemma digits_next_component: "list_all is_digit (fst (next_component r))"
  by (auto simp: next_component_def split: list.splits)

lemma semver_shaped_parts:
  assumes "list_all is_digit a" "a \<noteq> []" "list_all is_digit b" "b \<noteq> []"
    "list_all is_digit c" "c \<noteq> []"
  shows "semver_shaped (a @ ''.'' @ b @ ''.'' @ c)"
  using assms by (simp add: semver_shaped_def split_on_digits_dot split_on_digits)

lemma semver_shaped_clean_version: "semver_shaped (clean_version v)"
proof -
  obtain b r where 1: "next_component (dropWhile is_digit (dropWhile (\<lambda>c. \<not> is_digit c) v)) = (b, r)"
    by (cases "next_component (dropWhile is_digit (dropWhile (\<lambda>c. \<not> is_digit c) v))") auto
  obtain c r' where 2: "next_component r = (c, r')"
    by (cases "next_component r") auto
  have b: "list_all is_digit b" using digits_next_component [of "dropWhile is_digit (dropWhile (\<lambda>c. \<not> is_digit c) v)"] 1 by simp
  have c: "list_all is_digit c" using digits_next_component [of r] 2 by simp
  have "clean_version v = pad (takeWhile is_digit (dropWhile (\<lambda>c. \<not> is_digit c) v)) @ ''.'' @ pad b @ ''.'' @ pad c"
    by (simp add: clean_version_def Let_def 1 2)
  then show ?thesis
    using semver_shaped_parts digits_pad b c digits_takeWhile by metis
qed

lemma clean_version_nonempty: "clean_version v \<noteq> []"
  by (simp add: clean_version_def Let_def pad_def split: prod.splits)

lemma clean_0_22_0: "clean_version ''0.22.0'' = ''0.22.0''"
  by (simp add: clean_version_def next_component_def pad_def is_digit_def)

lemma clean_caret_0_22_0: "clean_version ''^0.22.0'' = ''0.22.0''"
  by (simp add: clean_version_def next_component_def pad_def is_digit_def)

lemma clean_0_22_2: "clean_version ''0.22.2'' = ''0.22.2''"
  by (simp add: clean_version_def next_component_def pad_def is_digit_def)

text \<open>
  C6. On the version probe of the spec: a manifest with a version field yields the cleaned
  text of that field (\<open>0.22.0\<close> for \<open>0.22.0\<close>, and for \<open>^0.22.0\<close> as in the test); a
  manifest without the field yields, for every declared version text, a non-empty string
  of three dot-separated numbers, and \<open>0.22.2\<close> when the project declares \<open>0.22.2\<close>.
\<close>

theorem getReactNativeVersion_probe:
  "getReactNativeVersion (Some v) declared = clean_version v \<and>
   getReactNativeVersion (Some ''0.22.0'') declared = ''0.22.0'' \<and>
   getReactNativeVersion (Some ''^0.22.0'') declared = ''0.22.0'' \<and>
   getReactNativeVersion None declared \<noteq> [] \<and>
   semver_shaped (getReactNativeVersion None declared) \<and>
   getReactNativeVersion None ''0.22.2'' = ''0.22.2''"
  by (simp add: getReactNativeVersion_def clean_0_22_0 clean_caret_0_22_0 clean_0_22_2
        semver_shaped_clean_version clean_version_nonempty)

theorem getReactNativeVersion_probe_witness:
  "getReactNativeVersion (Some ''^0.22.0'') ''0.22.2'' = ''0.22.0'' \<and>
   getReactNativeVersion None ''0.22.2'' = ''0.22.2'' \<and>
   semver_shaped ''0.22.2''"
proof -
  note probe = getReactNativeVersion_probe [of "''^0.22.0''" "''0.22.2''"]
  from probe have 1: "getReactNativeVersion (Some ''^0.22.0'') ''0.22.2'' = ''0.22.0''"
    by blast
  from probe have 2: "getReactNativeVersion None ''0.22.2'' = ''0.22.2''"
    by blast
  from probe have "semver_shaped (getReactNativeVersion None ''0.22.2'')"
    by blast
  then have 3: "semver_shaped ''0.22.2''"
    unfolding 2 .
  show ?thesis using 1 2 3 by blast
qed

end
